theory Spec2Isabelle
  imports Complex_Main
begin

section \<open>ClipMaster backend: job store, job creation and status polling\<close>

text \<open>
  The development embeds \<^verbatim>\<open>src/main.py\<close> and the two schemas of \<^verbatim>\<open>src/schemas.py\<close>
  it uses (\<^verbatim>\<open>Job\<close>, \<^verbatim>\<open>Clip\<close>).

  Conventions of the embedding:
  \<^item> Python floats (clock readings, elapsed time, clip durations) are real numbers: the
    arithmetic is exact, rounding of IEEE doubles is not modelled.
  \<^item> The module \<^verbatim>\<open>database\<close> is not part of the sources, so its import fails, \<^verbatim>\<open>db\<close> is
    \<^verbatim>\<open>None\<close> and every store operation takes its memory path; the dictionary
    \<^verbatim>\<open>_mem_jobs\<close> is passed and returned explicitly.
  \<^item> What the handlers read from their environment is an argument: the clock readings
    of \<^verbatim>\<open>time.time()\<close>, the identifier drawn by \<^verbatim>\<open>uuid.uuid4().hex\<close>, and the two library
    functions \<^verbatim>\<open>json.loads\<close> and pydantic's conversion of a string to a float.
  \<^item> An exception is a value: a handler returns \<open>Inl\<close> of the exception or \<open>Inr\<close> of the
    response body, together with the store it leaves behind.
\<close>

subsection \<open>Schemas\<close>

text \<open>\<^verbatim>\<open>Clip\<close> of \<^verbatim>\<open>schemas.py\<close>; \<open>None\<close> is Python's \<^verbatim>\<open>None\<close>.\<close>

record Clip =
  clip_caption :: "string option"
  clip_duration :: "real option"
  clip_aspect_ratio :: "string option"
  clip_thumbnail_url :: "string option"
  clip_download_url :: "string option"

text \<open>
  A stored job document: the fields \<^verbatim>\<open>Job(...).model_dump()\<close> produces, and the two keys
  the store and \<^verbatim>\<open>process\<close> add, \<^verbatim>\<open>_id\<close> and \<^verbatim>\<open>created_ts\<close> (\<open>None\<close>: key not yet set).
\<close>

record Job =
  job_status :: string
  job_progress :: int
  job_message :: "string option"
  job_source_type :: string
  job_original_filename :: "string option"
  job_sources :: "string list option"
  job_clip_length :: "string option"
  job_aspect_ratio :: "string option"
  job_auto_highlights :: bool
  job_clips :: "Clip list option"
  job_error :: "string option"
  job_id :: "string option"
  job_created_ts :: "real option"

text \<open>The uploaded file, of which the handler reads only the name.\<close>

record UploadFile =
  filename :: "string option"

subsection \<open>Exceptions and response bodies\<close>

text \<open>
  \<^verbatim>\<open>HTTPException(status_code, detail)\<close> is raised by the handlers; \<open>ValidationError\<close> is
  the exception pydantic raises when a field value cannot be converted to the field's
  type. No handler catches it, so the request ends in a server error.
\<close>

datatype exn = HTTPException nat string | ValidationError | AttributeError

text \<open>A response body is a dictionary literal: keys in the order written, with values.\<close>

datatype pyval = VStr string | VInt int | VNone | VClips "Clip list"

type_synonym response = "(string \<times> pyval) list"

type_synonym store = "string \<rightharpoonup> Job"

subsection \<open>Job store (memory path)\<close>

definition save_job :: "string \<Rightarrow> Job \<Rightarrow> store \<Rightarrow> string \<times> store" where
  "save_job jid doc mem_jobs = (jid, mem_jobs(jid \<mapsto> doc\<lparr>job_id := Some jid\<rparr>))"

definition get_job :: "string \<Rightarrow> store \<Rightarrow> Job option" where
  "get_job jid mem_jobs = mem_jobs jid"

text \<open>
  \<^verbatim>\<open>update_job\<close> merges a dictionary of updates into the stored document, if there is
  one. The updates are a function on the record: the fields it sets.
\<close>

definition update_job :: "string \<Rightarrow> (Job \<Rightarrow> Job) \<Rightarrow> store \<Rightarrow> store" where
  "update_job jid updates mem_jobs =
     (case mem_jobs jid of
        None \<Rightarrow> mem_jobs
      | Some doc \<Rightarrow> mem_jobs(jid \<mapsto> updates doc))"

subsection \<open>Polling: \<^verbatim>\<open>GET /status/{job_id}\<close>\<close>

definition PROCESS_SECONDS :: real where
  "PROCESS_SECONDS = 10"

text \<open>Python's \<^verbatim>\<open>int\<close> of a float truncates towards zero.\<close>

definition py_int :: "real \<Rightarrow> int" where
  "py_int x = (if 0 \<le> x then \<lfloor>x\<rfloor> else \<lceil>x\<rceil>)"

text \<open>The three bytes of the horizontal ellipsis (U+2026) in UTF-8.\<close>

definition ellipsis :: string where
  "ellipsis = [CHR 0xE2, CHR 0x80, CHR 0xA6]"

text \<open>
  \<^verbatim>\<open>max(0.0, time.time() - created_ts)\<close>, where \<^verbatim>\<open>created_ts\<close> is the document's, or
  the clock reading \<open>t0\<close> taken for the default of \<^verbatim>\<open>doc.get\<close>; \<open>t1\<close> is the second
  reading.
\<close>

definition elapsed_of :: "Job \<Rightarrow> real \<Rightarrow> real \<Rightarrow> real" where
  "elapsed_of doc t0 t1 =
     (let created_ts = (case job_created_ts doc of Some c \<Rightarrow> c | None \<Rightarrow> t0)
      in max 0 (t1 - created_ts))"

text \<open>
  The first example clip's duration: \<^verbatim>\<open>doc.get('clip_length')\<close> unless that is
  \<^verbatim>\<open>'auto'\<close>, then 30. The field is \<^verbatim>\<open>Optional[float]\<close>, so pydantic converts the string
  with \<open>float_of_str\<close>, and raises when that fails (\<open>None\<close>). A string that pydantic
  converts to an infinity or to a NaN has no real value and is outside the model.
\<close>

definition first_duration :: "(string \<Rightarrow> real option) \<Rightarrow> Job \<Rightarrow> exn + real option" where
  "first_duration float_of_str doc =
     (if job_clip_length doc \<noteq> Some ''auto''
      then (case job_clip_length doc of
              None \<Rightarrow> Inr None
            | Some s \<Rightarrow> (case float_of_str s of
                          None \<Rightarrow> Inl ValidationError
                        | Some d \<Rightarrow> Inr (Some d)))
      else Inr (Some 30))"

definition example_clips :: "real option \<Rightarrow> string option \<Rightarrow> Clip list" where
  "example_clips d ar =
     [\<lparr>clip_caption = Some ''Top moment with highest energy'',
       clip_duration = d,
       clip_aspect_ratio = ar,
       clip_thumbnail_url = Some ''https://images.unsplash.com/photo-1504384308090-c894fdcc538d?q=80&w=1280&auto=format&fit=crop'',
       clip_download_url = Some ''https://file-examples.com/storage/fe0e7a8f6e2a6a5ef2d3b5f/2017/04/file_example_MP4_480_1_5MG.mp4''\<rparr>,
      \<lparr>clip_caption = Some ''Funny reaction with clean transcript'',
       clip_duration = Some 20,
       clip_aspect_ratio = ar,
       clip_thumbnail_url = Some ''https://images.unsplash.com/photo-1524253482453-3fed8d2fe12b?q=80&w=1280&auto=format&fit=crop'',
       clip_download_url = Some ''https://file-examples.com/storage/fe0e7a8f6e2a6a5ef2d3b5f/2017/04/file_example_MP4_1280_10MG.mp4''\<rparr>]"

text \<open>Truth value of \<^verbatim>\<open>doc.get('clips')\<close>: neither \<^verbatim>\<open>None\<close> nor the empty list.\<close>

definition has_clips :: "Job \<Rightarrow> bool" where
  "has_clips doc = (case job_clips doc of None \<Rightarrow> False | Some cs \<Rightarrow> cs \<noteq> [])"

text \<open>The dictionary returned on the completed path, read from the document.\<close>

definition completed_body :: "Job \<Rightarrow> response" where
  "completed_body doc =
     [(''status'', VStr (job_status doc)),
      (''progress'', VInt (job_progress doc)),
      (''message'', (case job_message doc of None \<Rightarrow> VNone | Some m \<Rightarrow> VStr m)),
      (''clips'', (case job_clips doc of None \<Rightarrow> VNone | Some cs \<Rightarrow> VClips cs))]"

text \<open>The two dictionaries of updates \<^verbatim>\<open>status\<close> passes to \<^verbatim>\<open>update_job\<close>.\<close>

definition processing_updates :: "int \<Rightarrow> Job \<Rightarrow> Job" where
  "processing_updates pct d =
     d\<lparr>job_status := ''processing'',
       job_progress := pct,
       job_message := Some (''Analyzing scenes, audio and generating captions'' @ ellipsis)\<rparr>"

definition completed_updates :: "Clip list \<Rightarrow> Job \<Rightarrow> Job" where
  "completed_updates cs d =
     d\<lparr>job_status := ''completed'',
       job_progress := 100,
       job_message := Some ''All done! Your clips are ready.'',
       job_clips := Some cs\<rparr>"

definition status ::
  "(string \<Rightarrow> real option) \<Rightarrow> real \<Rightarrow> real \<Rightarrow> string \<Rightarrow> store \<Rightarrow> (exn + response) \<times> store" where
  "status float_of_str t0 t1 jid mem_jobs =
     (case get_job jid mem_jobs of
        None \<Rightarrow> (Inl (HTTPException 404 ''Job not found''), mem_jobs)
      | Some doc \<Rightarrow>
          let elapsed = elapsed_of doc t0 t1 in
          if elapsed < PROCESS_SECONDS then
            let pct = py_int (min 95 ((elapsed / PROCESS_SECONDS) * 90) + 10) in
            (Inr [(''status'', VStr ''processing''),
                  (''progress'', VInt pct),
                  (''message'', VStr (''Working on your highlights'' @ ellipsis))],
             update_job jid (processing_updates pct) mem_jobs)
          else if \<not> has_clips doc then
            (case first_duration float_of_str doc of
               Inl e \<Rightarrow> (Inl e, mem_jobs)
             | Inr d \<Rightarrow>
                 let ar = job_aspect_ratio doc;
                     mem_jobs' = update_job jid (completed_updates (example_clips d ar)) mem_jobs
                 in (case get_job jid mem_jobs' of
                       None \<Rightarrow> (Inl AttributeError, mem_jobs')
                     | Some doc' \<Rightarrow> (Inr (completed_body doc'), mem_jobs')))
          else (Inr (completed_body doc), mem_jobs))"

text \<open>Reading a response.\<close>

definition resp_status :: "exn + response \<Rightarrow> string option" where
  "resp_status r =
     (case r of Inl e \<Rightarrow> None
      | Inr body \<Rightarrow> (case map_of body ''status'' of Some (VStr s) \<Rightarrow> Some s | _ \<Rightarrow> None))"

definition resp_progress :: "exn + response \<Rightarrow> int option" where
  "resp_progress r =
     (case r of Inl e \<Rightarrow> None
      | Inr body \<Rightarrow> (case map_of body ''progress'' of Some (VInt p) \<Rightarrow> Some p | _ \<Rightarrow> None))"

definition resp_clips :: "exn + response \<Rightarrow> Clip list option" where
  "resp_clips r =
     (case r of Inl e \<Rightarrow> None
      | Inr body \<Rightarrow> (case map_of body ''clips'' of Some (VClips cs) \<Rightarrow> Some cs | _ \<Rightarrow> None))"

text \<open>Whether a response is a body with the key \<open>k\<close>.\<close>

definition resp_has_key :: "string \<Rightarrow> exn + response \<Rightarrow> bool" where
  "resp_has_key k r = (case r of Inl e \<Rightarrow> False | Inr body \<Rightarrow> map_of body k \<noteq> None)"

text \<open>A sequence of polls of one job, each with its two clock readings, in order.\<close>

fun polls ::
  "(string \<Rightarrow> real option) \<Rightarrow> (real \<times> real) list \<Rightarrow> string \<Rightarrow> store
     \<Rightarrow> (exn + response) list \<times> store" where
  "polls float_of_str [] jid mem_jobs = ([], mem_jobs)"
| "polls float_of_str (t # ts) jid mem_jobs =
     (let (r, mem_jobs') = status float_of_str (fst t) (snd t) jid mem_jobs;
          (rs, mem_jobs'') = polls float_of_str ts jid mem_jobs'
      in (r # rs, mem_jobs''))"

subsection \<open>Creating a job: \<^verbatim>\<open>POST /process\<close>\<close>

text \<open>
  What \<^verbatim>\<open>json.loads\<close> returns, as far as the handler looks at it: a list, a string, or
  any other value (object, number, boolean, null).
\<close>

datatype json = JString string | JArray "json list" | JOther

text \<open>\<^verbatim>\<open>[str(x) for x in parsed if isinstance(x, str)]\<close>\<close>

fun string_elements :: "json list \<Rightarrow> string list" where
  "string_elements [] = []"
| "string_elements (JString s # xs) = s # string_elements xs"
| "string_elements (x # xs) = string_elements xs"

text \<open>
  The list after the \<^verbatim>\<open>if sources:\<close> block. \<open>json_loads\<close> returns \<open>None\<close> where
  \<^verbatim>\<open>json.loads\<close> raises; the handler catches every exception there.
\<close>

definition parsed_sources :: "(string \<Rightarrow> json option) \<Rightarrow> string option \<Rightarrow> string list" where
  "parsed_sources json_loads sources =
     (case sources of
        None \<Rightarrow> []
      | Some s \<Rightarrow>
          if s = [] then []
          else (case json_loads s of
                  None \<Rightarrow> []
                | Some parsed \<Rightarrow>
                    (case parsed of JArray xs \<Rightarrow> string_elements xs | _ \<Rightarrow> [])))"

text \<open>The list after \<^verbatim>\<open>if source_url and source_url not in link_list: ...append\<close>.\<close>

definition link_list_of ::
  "(string \<Rightarrow> json option) \<Rightarrow> string option \<Rightarrow> string option \<Rightarrow> string list" where
  "link_list_of json_loads sources source_url =
     (let link_list = parsed_sources json_loads sources
      in case source_url of
           None \<Rightarrow> link_list
         | Some u \<Rightarrow> if u \<noteq> [] \<and> u \<notin> set link_list then link_list @ [u] else link_list)"


text \<open>\<^verbatim>\<open>str.lower\<close> on ASCII letters.\<close>

definition lower_char :: "char \<Rightarrow> char" where
  "lower_char c =
     (let n = (of_char c :: nat) in if 65 \<le> n \<and> n \<le> 90 then char_of (n + 32) else c)"

definition lower :: "string \<Rightarrow> string" where
  "lower s = map lower_char s"

definition process ::
  "(string \<Rightarrow> json option) \<Rightarrow> string \<Rightarrow> real \<Rightarrow>
   UploadFile option \<Rightarrow> string option \<Rightarrow> string option \<Rightarrow> string \<Rightarrow> string \<Rightarrow> string \<Rightarrow>
   store \<Rightarrow> (exn + response) \<times> store" where
  "process json_loads jid now file source_url sources clip_length aspect_ratio auto_highlights
     mem_jobs =
     (let link_list = link_list_of json_loads sources source_url in
      if file = None \<and> length link_list = 0 then
        (Inl (HTTPException 400 ''Provide a file or at least one link''), mem_jobs)
      else
        let source_type = (if file \<noteq> None then ''file'' else ''links'');
            auto_h = (lower auto_highlights \<in> set [''true'', ''1'', ''yes'', ''on'']);
            job_doc =
              \<lparr>job_status = ''queued'',
               job_progress = 10,
               job_message = Some ''Queued for processing'',
               job_source_type = source_type,
               job_original_filename = (case file of None \<Rightarrow> None | Some f \<Rightarrow> filename f),
               job_sources = (if source_type = ''links'' then Some link_list else None),
               job_clip_length = Some clip_length,
               job_aspect_ratio = Some aspect_ratio,
               job_auto_highlights = auto_h,
               job_clips = None,
               job_error = None,
               job_id = None,
               job_created_ts = None\<rparr>;
            (new_id, mem_jobs') = save_job jid job_doc mem_jobs;
            mem_jobs'' = update_job new_id (\<lambda>d. d\<lparr>job_created_ts := Some now\<rparr>) mem_jobs'
        in (Inr [(''job_id'', VStr new_id)], mem_jobs''))"

text \<open>The document an accepted request leaves in the store: \<^verbatim>\<open>job_doc\<close>, identified and stamped.\<close>

definition created_job ::
  "(string \<Rightarrow> json option) \<Rightarrow> string \<Rightarrow> real \<Rightarrow>
   UploadFile option \<Rightarrow> string option \<Rightarrow> string option \<Rightarrow> string \<Rightarrow> string \<Rightarrow> string \<Rightarrow> Job" where
  "created_job json_loads jid now file source_url sources clip_length aspect_ratio auto_highlights =
     \<lparr>job_status = ''queued'',
      job_progress = 10,
      job_message = Some ''Queued for processing'',
      job_source_type = (if file \<noteq> None then ''file'' else ''links''),
      job_original_filename = (case file of None \<Rightarrow> None | Some f \<Rightarrow> filename f),
      job_sources =
        (if file \<noteq> None then None else Some (link_list_of json_loads sources source_url)),
      job_clip_length = Some clip_length,
      job_aspect_ratio = Some aspect_ratio,
      job_auto_highlights = (lower auto_highlights \<in> set [''true'', ''1'', ''yes'', ''on'']),
      job_clips = None,
      job_error = None,
      job_id = Some jid,
      job_created_ts = Some now\<rparr>"

subsection \<open>The link list in the specification's words\<close>

text \<open>
  The parsed \<^verbatim>\<open>sources\<close>: the string elements of the value when it is a JSON array,
  the empty list when it is anything else, malformed or absent.
\<close>

definition spec_parsed :: "(string \<Rightarrow> json option) \<Rightarrow> string option \<Rightarrow> string list" where
  "spec_parsed json_loads sources =
     (case sources of
        None \<Rightarrow> []
      | Some s \<Rightarrow> (case json_loads s of Some (JArray xs) \<Rightarrow> [x. JString x \<leftarrow> xs] | _ \<Rightarrow> []))"

text \<open>
  \<^verbatim>\<open>source_url\<close> goes to the end unless the list has it already. A form field left
  empty counts as not supplied.
\<close>

definition spec_link_list ::
  "(string \<Rightarrow> json option) \<Rightarrow> string option \<Rightarrow> string option \<Rightarrow> string list" where
  "spec_link_list json_loads sources source_url =
     (let parsed = spec_parsed json_loads sources
      in case source_url of
           None \<Rightarrow> parsed
         | Some u \<Rightarrow> if u = [] \<or> u \<in> set parsed then parsed else parsed @ [u])"

subsection \<open>Instances of the two library functions\<close>

text \<open>
  The theorems below hold for every \<open>json_loads\<close> and \<open>float_of_str\<close>. To run the
  handlers on concrete requests, two instances cover the inputs the examples use.

  \<open>loads_string_array\<close> reads a JSON document that is an array of string literals
  without escape sequences, with optional white space between the tokens, as
  \<^verbatim>\<open>json.loads\<close> does. On every other input it returns \<open>None\<close>; for the handler this is
  the same as a value that is not a list.
\<close>

datatype scan_state = AtStart | AtFirst | AtElement | InString string | AfterElement | AtEnd

definition is_ws :: "char \<Rightarrow> bool" where
  "is_ws c = (c = CHR '' '' \<or> c = CHR 0x09 \<or> c = CHR 0x0A \<or> c = CHR 0x0D)"

fun scan :: "scan_state \<Rightarrow> string list \<Rightarrow> string \<Rightarrow> string list option" where
  "scan st acc [] = (case st of AtEnd \<Rightarrow> Some (rev acc) | _ \<Rightarrow> None)"
| "scan st acc (c # cs) =
     (case st of
        AtStart \<Rightarrow>
          if is_ws c then scan AtStart acc cs
          else if c = CHR ''['' then scan AtFirst acc cs
          else None
      | AtFirst \<Rightarrow>
          if is_ws c then scan AtFirst acc cs
          else if c = CHR '']'' then scan AtEnd acc cs
          else if c = CHR 0x22 then scan (InString []) acc cs
          else None
      | AtElement \<Rightarrow>
          if is_ws c then scan AtElement acc cs
          else if c = CHR 0x22 then scan (InString []) acc cs
          else None
      | InString s \<Rightarrow>
          if c = CHR 0x22 then scan AfterElement (rev s # acc) cs
          else if c = CHR 0x5C \<or> (of_char c :: nat) < 32 then None
          else scan (InString (c # s)) acc cs
      | AfterElement \<Rightarrow>
          if is_ws c then scan AfterElement acc cs
          else if c = CHR '','' then scan AtElement acc cs
          else if c = CHR '']'' then scan AtEnd acc cs
          else None
      | AtEnd \<Rightarrow> if is_ws c then scan AtEnd acc cs else None)"

definition loads_string_array :: "string \<Rightarrow> json option" where
  "loads_string_array s = map_option (\<lambda>xs. JArray (map JString xs)) (scan AtStart [] s)"

text \<open>
  \<open>float_of_digits\<close> converts a non-empty string of decimal digits, as pydantic does for a
  \<^verbatim>\<open>float\<close> field; on every other input it returns \<open>None\<close>.
\<close>

fun digits_value :: "nat \<Rightarrow> string \<Rightarrow> nat option" where
  "digits_value acc [] = Some acc"
| "digits_value acc (c # cs) =
     (let n = (of_char c :: nat)
      in if 48 \<le> n \<and> n \<le> 57 then digits_value (10 * acc + (n - 48)) cs else None)"

definition float_of_digits :: "string \<Rightarrow> real option" where
  "float_of_digits s = (if s = [] then None else map_option real (digits_value 0 s))"

subsection \<open>The progress formula in the specification's words\<close>

text \<open>\<^verbatim>\<open>floor(min(95, elapsed/total * 90) + 10)\<close> with a total of 10 seconds.\<close>

definition spec_progress :: "real \<Rightarrow> int" where
  "spec_progress elapsed = \<lfloor>min 95 (elapsed / 10 * 90) + 10\<rfloor>"

text \<open>Whether every response of a list reports a progress \<open>p\<close> with \<open>lo \<le> p < hi\<close>.\<close>

definition progress_within :: "int \<Rightarrow> int \<Rightarrow> (exn + response) list \<Rightarrow> bool" where
  "progress_within lo hi rs =
     list_all (\<lambda>r. case resp_progress r of None \<Rightarrow> False | Some p \<Rightarrow> lo \<le> p \<and> p < hi) rs"

subsection \<open>Example requests\<close>

text \<open>
  The store after one request \<^verbatim>\<open>POST /process\<close> with \<^verbatim>\<open>source_url=https://a\<close>, the clip
  length \<open>cl\<close> and the aspect ratio \<^verbatim>\<open>9:16\<close>, made on the empty store at clock reading 0
  and given the identifier \<^verbatim>\<open>j1\<close>; and the document it holds.
\<close>

definition example_store :: "string \<Rightarrow> store" where
  "example_store cl =
     snd (process loads_string_array ''j1'' 0 None (Some ''https://a'') None cl ''9:16'' ''true''
            Map.empty)"

definition example_doc :: "string \<Rightarrow> Job" where
  "example_doc cl =
     \<lparr>job_status = ''queued'',
      job_progress = 10,
      job_message = Some ''Queued for processing'',
      job_source_type = ''links'',
      job_original_filename = None,
      job_sources = Some [''https://a''],
      job_clip_length = Some cl,
      job_aspect_ratio = Some ''9:16'',
      job_auto_highlights = True,
      job_clips = None,
      job_error = None,
      job_id = Some ''j1'',
      job_created_ts = Some 0\<rparr>"

text \<open>
  The example store with the clip length \<^verbatim>\<open>45\<close> after a poll at clock reading 12, which
  completes the job.
\<close>

definition example_completed :: store where
  "example_completed = snd (status float_of_digits 12 12 ''j1'' (example_store ''45''))"

text \<open>
  The same request made at clock reading 100, so that the time elapsed since creation
  differs from the clock reading; and the document it stores.
\<close>

definition late_store :: "string \<Rightarrow> store" where
  "late_store cl =
     snd (process loads_string_array ''j1'' 100 None (Some ''https://a'') None cl ''9:16'' ''true''
            Map.empty)"

definition late_doc :: "string \<Rightarrow> Job" where
  "late_doc cl = (example_doc cl)\<lparr>job_created_ts := Some 100\<rparr>"

section \<open>Properties of polling\<close>

lemma py_int_nonneg: "0 \<le> x \<Longrightarrow> py_int x = \<lfloor>x\<rfloor>"
  by (simp add: py_int_def)

lemma elapsed_of_nonneg: "0 \<le> elapsed_of doc t0 t1"
  by (simp add: elapsed_of_def Let_def)

lemma example_store_eq: "example_store cl = [''j1'' \<mapsto> example_doc cl]"
  by (simp add: example_store_def process_def link_list_of_def parsed_sources_def save_job_def
      update_job_def Let_def lower_def lower_char_def example_doc_def)

lemma spec_progress_range:
  assumes "0 \<le> e" and "e < 10"
  shows "10 \<le> spec_progress e \<and> spec_progress e < 100"
proof -
  have "10 \<le> min 95 (e / 10 * 90) + 10" using assms(1) by simp
  then have lo: "(10::int) \<le> \<lfloor>min 95 (e / 10 * 90) + 10\<rfloor>" by (simp add: le_floor_iff)
  have "min 95 (e / 10 * 90) + 10 < 100" using assms(2) by simp
  then have "\<lfloor>min 95 (e / 10 * 90) + 10\<rfloor> < (100::int)" by (simp add: floor_less_iff)
  with lo show ?thesis by (simp add: spec_progress_def)
qed

lemma spec_progress_mono: "e \<le> e' \<Longrightarrow> spec_progress e \<le> spec_progress e'"
  unfolding spec_progress_def by (intro floor_mono) (simp add: min_le_iff_disj)

text \<open>The four paths of \<^verbatim>\<open>status\<close> on a stored job, each with the store it leaves.\<close>

lemma status_processing:
  assumes "mem_jobs jid = Some doc" and "elapsed_of doc t0 t1 < 10"
  shows "status f t0 t1 jid mem_jobs =
          (Inr [(''status'', VStr ''processing''),
                (''progress'', VInt (spec_progress (elapsed_of doc t0 t1))),
                (''message'', VStr (''Working on your highlights'' @ ellipsis))],
           mem_jobs(jid \<mapsto> processing_updates (spec_progress (elapsed_of doc t0 t1)) doc))"
proof -
  have "0 \<le> min 95 (elapsed_of doc t0 t1 / 10 * 90) + 10"
    using elapsed_of_nonneg [of doc t0 t1] by simp
  then show ?thesis
    using assms by (simp add: status_def get_job_def update_job_def PROCESS_SECONDS_def Let_def
        py_int_nonneg spec_progress_def)
qed

lemma status_completed_stored:
  assumes "mem_jobs jid = Some doc" and "10 \<le> elapsed_of doc t0 t1" and "has_clips doc"
  shows "status f t0 t1 jid mem_jobs = (Inr (completed_body doc), mem_jobs)"
  using assms by (simp add: status_def get_job_def PROCESS_SECONDS_def Let_def)

lemma status_completed_generated:
  assumes "mem_jobs jid = Some doc" and "10 \<le> elapsed_of doc t0 t1" and "\<not> has_clips doc"
    and "first_duration f doc = Inr d"
  shows "status f t0 t1 jid mem_jobs =
           (Inr (completed_body (completed_updates (example_clips d (job_aspect_ratio doc)) doc)),
            mem_jobs(jid \<mapsto> completed_updates (example_clips d (job_aspect_ratio doc)) doc))"
  using assms by (simp add: status_def get_job_def update_job_def PROCESS_SECONDS_def Let_def)

lemma status_completed_invalid:
  assumes "mem_jobs jid = Some doc" and "10 \<le> elapsed_of doc t0 t1" and "\<not> has_clips doc"
    and "first_duration f doc = Inl e"
  shows "status f t0 t1 jid mem_jobs = (Inl e, mem_jobs)"
  using assms by (simp add: status_def get_job_def PROCESS_SECONDS_def Let_def)

lemma late_store_eq: "late_store cl = [''j1'' \<mapsto> late_doc cl]"
  by (simp add: late_store_def process_def link_list_of_def parsed_sources_def save_job_def
      update_job_def Let_def lower_def lower_char_def late_doc_def example_doc_def)

lemma elapsed_of_created:
  "job_created_ts doc = Some c \<Longrightarrow> elapsed_of doc t0 t1 = max 0 (t1 - c)"
  by (simp add: elapsed_of_def)

text \<open>
  C1. A poll of an existing job whose record carries the creation time \<open>c\<close>, made at a
  clock reading \<open>t1\<close> less than 10 seconds after \<open>c\<close>, answers with the status
  \<^verbatim>\<open>processing\<close> and the progress \<open>floor(min(95, elapsed/10 * 90) + 10)\<close>, where the
  elapsed time is \<open>max(0, t1 - c)\<close>; the progress is at least 10 and less than 100.
\<close>

theorem status_before_deadline:
  assumes "mem_jobs jid = Some doc" and "job_created_ts doc = Some c" and "t1 - c < 10"
  shows "resp_status (fst (status float_of_str t0 t1 jid mem_jobs)) = Some ''processing''
       \<and> resp_progress (fst (status float_of_str t0 t1 jid mem_jobs))
           = Some \<lfloor>min 95 (max 0 (t1 - c) / 10 * 90) + 10\<rfloor>
       \<and> 10 \<le> \<lfloor>min 95 (max 0 (t1 - c) / 10 * 90) + 10\<rfloor>
       \<and> \<lfloor>min 95 (max 0 (t1 - c) / 10 * 90) + 10\<rfloor> < 100"
proof -
  let ?e = "max 0 (t1 - c)"
  have el: "elapsed_of doc t0 t1 = ?e"
    using assms(2) by (rule elapsed_of_created)
  have e0: "0 \<le> ?e" by simp
  have e10: "?e < 10" using assms(3) by simp
  have lt: "elapsed_of doc t0 t1 < 10" unfolding el by (rule e10)
  have rng: "10 \<le> spec_progress ?e \<and> spec_progress ?e < 100"
    using e0 e10 by (rule spec_progress_range)
  have st: "fst (status float_of_str t0 t1 jid mem_jobs)
              = Inr [(''status'', VStr ''processing''),
                     (''progress'', VInt (spec_progress ?e)),
                     (''message'', VStr (''Working on your highlights'' @ ellipsis))]"
    using status_processing [where mem_jobs = mem_jobs and jid = jid and f = float_of_str,
        OF assms(1) lt]
    unfolding el by simp
  have p: "spec_progress ?e = \<lfloor>min 95 (?e / 10 * 90) + 10\<rfloor>"
    by (simp only: spec_progress_def)
  have r1: "resp_status (fst (status float_of_str t0 t1 jid mem_jobs)) = Some ''processing''"
    unfolding st by (simp add: resp_status_def)
  have r2: "resp_progress (fst (status float_of_str t0 t1 jid mem_jobs)) = Some (spec_progress ?e)"
    unfolding st by (simp add: resp_progress_def)
  show ?thesis
    using r1 r2 rng unfolding p by blast
qed

theorem status_before_deadline_witness:
  "late_store ''auto'' ''j1'' = Some (late_doc ''auto'')
   \<and> job_created_ts (late_doc ''auto'') = Some 100
   \<and> resp_status (fst (status float_of_digits 103 103 ''j1'' (late_store ''auto'')))
       = Some ''processing''
   \<and> resp_progress (fst (status float_of_digits 103 103 ''j1'' (late_store ''auto''))) = Some 37
   \<and> resp_progress (fst (status float_of_digits 0 (211/2) ''j1'' (late_store ''auto''))) = Some 59
   \<and> resp_progress (fst (status float_of_digits 99 99 ''j1'' (late_store ''auto''))) = Some 10"
proof -
  have h1: "late_store ''auto'' ''j1'' = Some (late_doc ''auto'')"
    by (simp add: late_store_eq)
  have h2: "job_created_ts (late_doc ''auto'') = Some 100" by (simp add: late_doc_def)
  have a: "(103::real) - 100 < 10" by simp
  have b: "(211/2::real) - 100 < 10" by simp
  have c: "(99::real) - 100 < 10" by simp
  show ?thesis
    using status_before_deadline [where mem_jobs = "late_store ''auto''" and jid = "''j1''"
        and doc = "late_doc ''auto''" and c = 100 and ?t0.0 = 103 and ?t1.0 = 103
        and float_of_str = float_of_digits, OF h1 h2 a]
      status_before_deadline [where mem_jobs = "late_store ''auto''" and jid = "''j1''"
        and doc = "late_doc ''auto''" and c = 100 and ?t0.0 = 0 and ?t1.0 = "211/2"
        and float_of_str = float_of_digits, OF h1 h2 b]
      status_before_deadline [where mem_jobs = "late_store ''auto''" and jid = "''j1''"
        and doc = "late_doc ''auto''" and c = 100 and ?t0.0 = 99 and ?t1.0 = 99
        and float_of_str = float_of_digits, OF h1 h2 c]
      h1 h2
    by simp
qed

section \<open>Properties of job creation and lookup\<close>


lemma process_accepted:
  assumes "upload \<noteq> None \<or> link_list_of json_loads sources source_url \<noteq> []"
  shows "process json_loads jid now upload source_url sources clip_length aspect_ratio
           auto_highlights mem_jobs
         = (Inr [(''job_id'', VStr jid)],
            mem_jobs(jid \<mapsto> created_job json_loads jid now upload source_url sources clip_length
                                aspect_ratio auto_highlights))"
  using assms
  by (auto simp add: process_def save_job_def update_job_def Let_def created_job_def)


lemma string_elements_eq: "string_elements xs = [x. JString x \<leftarrow> xs]"
  by (induction xs rule: string_elements.induct) simp_all

lemma parsed_sources_spec:
  assumes "json_loads [] = None"
  shows "parsed_sources json_loads sources = spec_parsed json_loads sources"
  using assms
  by (simp add: parsed_sources_def spec_parsed_def string_elements_eq split: option.splits json.splits)

lemma link_list_of_spec:
  assumes "json_loads [] = None"
  shows "link_list_of json_loads sources source_url = spec_link_list json_loads sources source_url"
  using parsed_sources_spec [where json_loads = json_loads, OF assms]
  by (auto simp add: link_list_of_def spec_link_list_def Let_def split: option.splits)

lemma loads_example:
  "loads_string_array ''[\"https://a\",\"https://b\"]''
     = Some (JArray [JString ''https://a'', JString ''https://b''])"
  by (simp add: loads_string_array_def is_ws_def)

lemma loads_empty: "loads_string_array [] = None"
  by (simp add: loads_string_array_def)





text \<open>
  C9. Polling an identifier under which no job is stored fails with the error 404 and
  leaves the store unchanged.
\<close>

theorem status_unknown_job:
  assumes "mem_jobs jid = None"
  shows "status float_of_str t0 t1 jid mem_jobs
           = (Inl (HTTPException 404 ''Job not found''), mem_jobs)"
  using assms by (simp add: status_def get_job_def)

theorem status_unknown_job_witness:
  "example_store ''auto'' ''j2'' = None
   \<and> status float_of_digits 5 5 ''j2'' (example_store ''auto'')
       = (Inl (HTTPException 404 ''Job not found''), example_store ''auto'')"
proof -
  have h: "example_store ''auto'' ''j2'' = None" by (simp add: example_store_eq)
  show ?thesis
    using status_unknown_job [where mem_jobs = "example_store ''auto''" and jid = "''j2''"
       and float_of_str = float_of_digits and ?t0.0 = 5 and ?t1.0 = 5, OF h] h
    by simp
qed

text \<open>
  C6. The link list \<^verbatim>\<open>process\<close> validates and stores is the list of the specification:
  the string elements of \<^verbatim>\<open>sources\<close> when it parses to a JSON array, the empty list
  otherwise, with \<^verbatim>\<open>source_url\<close> appended unless it is present already. It is the
  \<^verbatim>\<open>sources\<close> field of the job stored for a request without file. For the sources
  \<^verbatim>\<open>["https://a","https://b"]\<close> and the \<^verbatim>\<open>source_url\<close> \<^verbatim>\<open>https://a\<close> the list is
  \<^verbatim>\<open>["https://a","https://b"]\<close>. The hypothesis states that \<^verbatim>\<open>json.loads\<close> raises on the
  empty document.
\<close>

theorem process_link_list:
  assumes "json_loads [] = None"
  shows "link_list_of json_loads sources source_url = spec_link_list json_loads sources source_url
       \<and> (link_list_of json_loads sources source_url \<noteq> [] \<longrightarrow>
            map_option job_sources
              (snd (process json_loads jid now None source_url sources clip_length aspect_ratio auto_highlights mem_jobs) jid)
            = Some (Some (spec_link_list json_loads sources source_url)))
       \<and> (json_loads ''[\"https://a\",\"https://b\"]''
              = Some (JArray [JString ''https://a'', JString ''https://b'']) \<longrightarrow>
            link_list_of json_loads (Some ''[\"https://a\",\"https://b\"]'') (Some ''https://a'')
              = [''https://a'', ''https://b''])"
proof (intro conjI impI)
  show eq: "link_list_of json_loads sources source_url = spec_link_list json_loads sources source_url"
    using assms by (rule link_list_of_spec)
  show "map_option job_sources
          (snd (process json_loads jid now None source_url sources clip_length aspect_ratio auto_highlights mem_jobs) jid)
        = Some (Some (spec_link_list json_loads sources source_url))"
    if "link_list_of json_loads sources source_url \<noteq> []"
  proof -
    from that have a: "(None :: UploadFile option) \<noteq> None \<or> link_list_of json_loads sources source_url \<noteq> []"
      by simp
    show ?thesis by (simp add: process_accepted [OF a] eq created_job_def)
  qed
  show "link_list_of json_loads (Some ''[\"https://a\",\"https://b\"]'') (Some ''https://a'')
          = [''https://a'', ''https://b'']"
    if "json_loads ''[\"https://a\",\"https://b\"]''
          = Some (JArray [JString ''https://a'', JString ''https://b''])"
    using that by (simp add: link_list_of_def parsed_sources_def)
qed

theorem process_link_list_witness:
  "loads_string_array [] = None
   \<and> link_list_of loads_string_array (Some ''[\"https://a\",\"https://b\"]'') (Some ''https://a'')
       = [''https://a'', ''https://b'']
   \<and> map_option job_sources
        (snd (process loads_string_array ''j1'' 0 None (Some ''https://a'')
               (Some ''[\"https://a\",\"https://b\"]'') ''auto'' ''auto'' ''true'' Map.empty) ''j1'')
       = Some (Some [''https://a'', ''https://b''])
   \<and> link_list_of loads_string_array (Some ''[\"https://a\",\"https://b\"]'') (Some ''https://c'')
       = [''https://a'', ''https://b'', ''https://c'']"
proof -
  have sp1: "spec_link_list loads_string_array (Some ''[\"https://a\",\"https://b\"]'') (Some ''https://a'')
           = [''https://a'', ''https://b'']"
    by (simp add: spec_link_list_def spec_parsed_def loads_example)
  have sp2: "spec_link_list loads_string_array (Some ''[\"https://a\",\"https://b\"]'') (Some ''https://c'')
           = [''https://a'', ''https://b'', ''https://c'']"
    by (simp add: spec_link_list_def spec_parsed_def loads_example)
  show ?thesis
    using process_link_list [where json_loads = loads_string_array
        and sources = "Some ''[\"https://a\",\"https://b\"]''" and source_url = "Some ''https://a''"
        and jid = "''j1''" and now = 0 and clip_length = "''auto''" and aspect_ratio = "''auto''"
        and auto_highlights = "''true''" and mem_jobs = Map.empty, OF loads_empty]
      process_link_list [where json_loads = loads_string_array
        and sources = "Some ''[\"https://a\",\"https://b\"]''" and source_url = "Some ''https://c''"
        and jid = "''j1''" and now = 0 and clip_length = "''auto''" and aspect_ratio = "''auto''"
        and auto_highlights = "''true''" and mem_jobs = Map.empty, OF loads_empty]
      loads_empty loads_example sp1 sp2
    by simp
qed


text \<open>
  C10. When a request \<^verbatim>\<open>POST /process\<close> carries a file, the stored job has the source type
  \<^verbatim>\<open>file\<close> and its \<^verbatim>\<open>sources\<close> field is \<^verbatim>\<open>None\<close>, whatever links came with it: the
  outcome is the one of the same request without links, so the stored record does not
  determine them.
\<close>

theorem process_file_discards_links:
  assumes "upload = Some f"
  shows "fst (process json_loads jid now upload source_url sources clip_length aspect_ratio auto_highlights mem_jobs)
           = Inr [(''job_id'', VStr jid)]
       \<and> map_option job_source_type
            (snd (process json_loads jid now upload source_url sources clip_length aspect_ratio auto_highlights mem_jobs) jid)
           = Some ''file''
       \<and> map_option job_sources
            (snd (process json_loads jid now upload source_url sources clip_length aspect_ratio auto_highlights mem_jobs) jid)
           = Some None
       \<and> process json_loads jid now upload source_url sources clip_length aspect_ratio auto_highlights mem_jobs
           = process json_loads jid now upload None None clip_length aspect_ratio auto_highlights mem_jobs"
proof -
  have a: "upload \<noteq> None \<or> link_list_of json_loads sources source_url \<noteq> []" using assms by simp
  have b: "upload \<noteq> None \<or> link_list_of json_loads None None \<noteq> []" using assms by simp
  show ?thesis
    unfolding process_accepted [OF a] process_accepted [OF b] using assms
    by (simp add: created_job_def)
qed

theorem process_file_discards_links_witness:
  "map_option job_source_type
     (snd (process loads_string_array ''j1'' 0 (Some \<lparr>filename = Some ''talk.mp4''\<rparr>) (Some ''https://a'')
            (Some ''[\"https://a\",\"https://b\"]'') ''auto'' ''auto'' ''true'' Map.empty) ''j1'')
     = Some ''file''
   \<and> map_option job_sources
     (snd (process loads_string_array ''j1'' 0 (Some \<lparr>filename = Some ''talk.mp4''\<rparr>) (Some ''https://a'')
            (Some ''[\"https://a\",\"https://b\"]'') ''auto'' ''auto'' ''true'' Map.empty) ''j1'')
     = Some None"
  using process_file_discards_links [where upload = "Some \<lparr>filename = Some ''talk.mp4''\<rparr>"
      and f = "\<lparr>filename = Some ''talk.mp4''\<rparr>" and json_loads = loads_string_array
      and jid = "''j1''" and now = 0 and source_url = "Some ''https://a''"
      and sources = "Some ''[\"https://a\",\"https://b\"]''" and clip_length = "''auto''"
      and aspect_ratio = "''auto''" and auto_highlights = "''true''" and mem_jobs = Map.empty,
      OF refl]
  by blast

section \<open>From creation to completion\<close>

lemma resp_clips_completed_body:
  "resp_clips (Inr (completed_body doc)) = job_clips doc"
  by (simp add: resp_clips_def completed_body_def split: option.splits)

lemma polls_Cons_snd:
  "snd (polls f (t # ts) jid mem_jobs)
     = snd (polls f ts jid (snd (status f (fst t) (snd t) jid mem_jobs)))"
  by (simp add: split_beta Let_def)

text \<open>
  Polls before the deadline leave the record in the store and do not touch its creation
  time, its clip length, its aspect ratio or its clips.
\<close>

lemma polls_before_deadline_keep:
  assumes "mem_jobs jid = Some doc" and "job_created_ts doc = Some c"
    and "\<forall>t\<in>set ts. snd t - c < 10"
  shows "\<exists>doc'. snd (polls f ts jid mem_jobs) jid = Some doc'
           \<and> job_created_ts doc' = Some c
           \<and> job_clip_length doc' = job_clip_length doc
           \<and> job_aspect_ratio doc' = job_aspect_ratio doc
           \<and> job_clips doc' = job_clips doc"
  using assms
proof (induction ts arbitrary: mem_jobs doc)
  case Nil
  then show ?case by simp
next
  case (Cons t ts)
  have el: "elapsed_of doc (fst t) (snd t) = max 0 (snd t - c)"
    using Cons.prems(2) by (rule elapsed_of_created)
  have lt: "elapsed_of doc (fst t) (snd t) < 10" using Cons.prems(3) by (simp add: el)
  let ?doc1 = "processing_updates (spec_progress (elapsed_of doc (fst t) (snd t))) doc"
  let ?mem1 = "mem_jobs(jid \<mapsto> ?doc1)"
  have st: "snd (status f (fst t) (snd t) jid mem_jobs) = ?mem1"
    using status_processing [where f = f and mem_jobs = mem_jobs and jid = jid,
        OF Cons.prems(1) lt] by simp
  have m1: "?mem1 jid = Some ?doc1" by simp
  have c1: "job_created_ts ?doc1 = Some c"
    using Cons.prems(2) by (simp add: processing_updates_def)
  have rest: "\<forall>t\<in>set ts. snd t - c < 10" using Cons.prems(3) by simp
  have same: "job_clip_length ?doc1 = job_clip_length doc"
    "job_aspect_ratio ?doc1 = job_aspect_ratio doc" "job_clips ?doc1 = job_clips doc"
    by (simp_all add: processing_updates_def)
  obtain doc' where d: "snd (polls f ts jid ?mem1) jid = Some doc'"
      "job_created_ts doc' = Some c" "job_clip_length doc' = job_clip_length ?doc1"
      "job_aspect_ratio doc' = job_aspect_ratio ?doc1" "job_clips doc' = job_clips ?doc1"
    using Cons.IH [where doc = ?doc1 and mem_jobs = ?mem1, OF m1 c1 rest] by blast
  show ?case
    unfolding polls_Cons_snd st using d same by simp
qed

lemma first_duration_cong:
  "job_clip_length doc' = job_clip_length doc
     \<Longrightarrow> first_duration f doc' = first_duration f doc"
  by (simp add: first_duration_def)

lemma process_polls_then_complete:
  assumes acc: "upload \<noteq> None \<or> link_list_of json_loads sources source_url \<noteq> []"
    and pre: "\<forall>t\<in>set ts. snd t - now < 10"
    and late: "10 \<le> t1 - now"
    and dur: "first_duration float_of_str
                (created_job json_loads jid now upload source_url sources clip_length aspect_ratio
                   auto_highlights) = Inr d"
  shows "resp_clips (fst (status float_of_str t0 t1 jid
           (snd (polls float_of_str ts jid
              (snd (process json_loads jid now upload source_url sources clip_length aspect_ratio
                      auto_highlights mem_jobs))))))
         = Some (example_clips d (Some aspect_ratio))"
proof -
  let ?doc = "created_job json_loads jid now upload source_url sources clip_length aspect_ratio
                auto_highlights"
  let ?mem0 = "mem_jobs(jid \<mapsto> ?doc)"
  let ?mem1 = "snd (polls float_of_str ts jid ?mem0)"
  have st: "snd (process json_loads jid now upload source_url sources clip_length aspect_ratio
                   auto_highlights mem_jobs) = ?mem0"
    by (simp add: process_accepted [OF acc])
  have m0: "?mem0 jid = Some ?doc" by simp
  have c0: "job_created_ts ?doc = Some now" by (simp add: created_job_def)
  obtain doc' where d: "?mem1 jid = Some doc'"
      "job_created_ts doc' = Some now" "job_clip_length doc' = job_clip_length ?doc"
      "job_aspect_ratio doc' = job_aspect_ratio ?doc" "job_clips doc' = job_clips ?doc"
    using polls_before_deadline_keep [where f = float_of_str and mem_jobs = ?mem0 and jid = jid
        and doc = ?doc and c = now and ts = ts, OF m0 c0 pre] by blast
  have h2: "10 \<le> elapsed_of doc' t0 t1"
    using late by (simp add: elapsed_of_created [OF d(2)])
  have h3: "\<not> has_clips doc'" using d(5) by (simp add: has_clips_def created_job_def)
  have h4: "first_duration float_of_str doc' = Inr d"
    using first_duration_cong [OF d(3)] dur by simp
  have ar: "job_aspect_ratio doc' = Some aspect_ratio" using d(4) by (simp add: created_job_def)
  show ?thesis
    unfolding st
    using status_completed_generated [where f = float_of_str and mem_jobs = ?mem1
        and jid = jid and doc = doc' and ?t0.0 = t0 and ?t1.0 = t1, OF d(1) h2 h3 h4]
    by (simp add: resp_clips_completed_body completed_updates_def ar)
qed

lemma float_of_digits_45: "float_of_digits ''45'' = Some 45"
  by (simp add: float_of_digits_def)

lemma float_of_digits_short: "float_of_digits ''short'' = None"
  by (simp add: float_of_digits_def)

lemma link_list_example: "link_list_of loads_string_array None (Some ''https://a'') = [''https://a'']"
  by (simp add: link_list_of_def parsed_sources_def)

text \<open>
  C7. A job is created with the clip length \<^verbatim>\<open>45\<close>, polled any number of times before
  its deadline and then polled 10 seconds or more after its creation: that poll, the one
  that generates the example clips, returns a first clip of duration 45. For a job created
  with \<^verbatim>\<open>auto\<close> the duration is 30. The second clip's duration is 20 in both cases.
  The first hypothesis states what pydantic's conversion does with \<^verbatim>\<open>"45"\<close>, the
  second that the request is accepted.
\<close>

theorem first_clip_duration:
  assumes "float_of_str ''45'' = Some 45"
    and "upload \<noteq> None \<or> link_list_of json_loads sources source_url \<noteq> []"
    and "\<forall>t\<in>set ts. snd t - now < 10"
    and "10 \<le> t1 - now"
  shows "map_option (map clip_duration)
           (resp_clips (fst (status float_of_str t0 t1 jid
              (snd (polls float_of_str ts jid
                 (snd (process json_loads jid now upload source_url sources ''45'' aspect_ratio
                         auto_highlights mem_jobs)))))))
         = Some [Some 45, Some 20]
       \<and> map_option (map clip_duration)
           (resp_clips (fst (status float_of_str t0 t1 jid
              (snd (polls float_of_str ts jid
                 (snd (process json_loads jid now upload source_url sources ''auto'' aspect_ratio
                         auto_highlights mem_jobs)))))))
         = Some [Some 30, Some 20]"
proof -
  have a: "map_option (map clip_duration)
           (resp_clips (fst (status float_of_str t0 t1 jid
              (snd (polls float_of_str ts jid
                 (snd (process json_loads jid now upload source_url sources ''45'' aspect_ratio
                         auto_highlights mem_jobs)))))))
         = Some [Some 45, Some 20]"
    by (subst process_polls_then_complete [OF assms(2,3,4), where d = "Some 45"])
       (simp_all add: first_duration_def assms(1) example_clips_def created_job_def)
  have b: "map_option (map clip_duration)
           (resp_clips (fst (status float_of_str t0 t1 jid
              (snd (polls float_of_str ts jid
                 (snd (process json_loads jid now upload source_url sources ''auto'' aspect_ratio
                         auto_highlights mem_jobs)))))))
         = Some [Some 30, Some 20]"
    by (subst process_polls_then_complete [OF assms(2,3,4), where d = "Some 30"])
       (simp_all add: first_duration_def example_clips_def created_job_def)
  from a b show ?thesis by (rule conjI)
qed

theorem first_clip_duration_witness:
  "float_of_digits ''45'' = Some 45
   \<and> map_option (map clip_duration)
       (resp_clips (fst (status float_of_digits 112 112 ''j1''
          (snd (polls float_of_digits [(101, 101), (104, 104)] ''j1'' (late_store ''45''))))))
     = Some [Some 45, Some 20]
   \<and> map_option (map clip_duration)
       (resp_clips (fst (status float_of_digits 112 112 ''j1''
          (snd (polls float_of_digits [(101, 101), (104, 104)] ''j1'' (late_store ''auto''))))))
     = Some [Some 30, Some 20]"
proof -
  have acc: "(None :: UploadFile option) \<noteq> None
               \<or> link_list_of loads_string_array None (Some ''https://a'') \<noteq> []"
    by (simp add: link_list_example)
  have pre: "\<forall>t\<in>set ([(101, 101), (104, 104)] :: (real \<times> real) list). snd t - 100 < 10"
    by simp
  have late: "(10::real) \<le> 112 - 100" by simp
  show ?thesis
    using first_clip_duration [where float_of_str = float_of_digits and json_loads = loads_string_array
        and upload = None and sources = None and source_url = "Some ''https://a''"
        and ts = "[(101, 101), (104, 104)]" and ?t0.0 = 112
        and ?t1.0 = 112 and now = 100 and jid = "''j1''" and aspect_ratio = "''9:16''"
        and auto_highlights = "''true''" and mem_jobs = Map.empty, OF float_of_digits_45 acc pre late]
      float_of_digits_45
    by (simp only: late_store_def)
qed

section \<open>Polling a completed job\<close>

lemma example_completed_eq:
  "example_completed
     = [''j1'' \<mapsto> completed_updates (example_clips (Some 45) (Some ''9:16'')) (example_doc ''45'')]"
proof -
  have h1: "[''j1'' \<mapsto> example_doc ''45''] ''j1'' = Some (example_doc ''45'')" by simp
  have h2: "10 \<le> elapsed_of (example_doc ''45'') 12 12"
    by (simp add: elapsed_of_def example_doc_def)
  have h3: "\<not> has_clips (example_doc ''45'')" by (simp add: has_clips_def example_doc_def)
  have h4: "first_duration float_of_digits (example_doc ''45'') = Inr (Some 45)"
    by (simp add: first_duration_def example_doc_def float_of_digits_45)
  have ar: "job_aspect_ratio (example_doc ''45'') = Some ''9:16''" by (simp add: example_doc_def)
  show ?thesis
    unfolding example_completed_def example_store_eq
    using status_completed_generated [where f = float_of_digits
        and mem_jobs = "[''j1'' \<mapsto> example_doc ''45'']" and jid = "''j1''"
        and doc = "example_doc ''45''" and ?t0.0 = 12 and ?t1.0 = 12, OF h1 h2 h3 h4]
    by (simp add: ar)
qed

lemma status_clips_unchanged:
  assumes "mem_jobs jid = Some doc" and "job_clips doc = Some cs" and "cs \<noteq> []"
  shows "map_option job_clips (snd (status f t0 t1 jid mem_jobs) jid) = Some (Some cs)"
proof (cases "elapsed_of doc t0 t1 < 10")
  case True
  show ?thesis
    using status_processing [where f = f and mem_jobs = mem_jobs and jid = jid, OF assms(1) True]
      assms(2)
    by (simp add: processing_updates_def)
next
  case False
  then have late: "10 \<le> elapsed_of doc t0 t1" by simp
  have hc: "has_clips doc" using assms(2,3) by (simp add: has_clips_def)
  show ?thesis
    using status_completed_stored [where f = f and mem_jobs = mem_jobs and jid = jid,
        OF assms(1) late hc] assms(1,2)
    by simp
qed

lemma status_clips_returned:
  assumes "mem_jobs jid = Some doc" and "job_clips doc = Some cs" and "cs \<noteq> []"
    and "10 \<le> elapsed_of doc t0 t1"
  shows "status f t0 t1 jid mem_jobs = (Inr (completed_body doc), mem_jobs)"
proof -
  have hc: "has_clips doc" using assms(2,3) by (simp add: has_clips_def)
  show ?thesis
    using status_completed_stored [where f = f and mem_jobs = mem_jobs and jid = jid,
        OF assms(1) assms(4) hc] .
qed

text \<open>
  C5. When the stored record holds a non-empty list of clips, no poll changes that list;
  a poll 10 seconds or more after creation returns exactly the stored clips and leaves the
  whole store as it was; so two such polls in a row return identical clip lists.
\<close>

theorem status_completed_idempotent:
  assumes "mem_jobs jid = Some doc" and "job_clips doc = Some cs" and "cs \<noteq> []"
  shows "map_option job_clips (snd (status f t0 t1 jid mem_jobs) jid) = Some (Some cs)
       \<and> (10 \<le> elapsed_of doc t0 t1 \<longrightarrow>
            resp_clips (fst (status f t0 t1 jid mem_jobs)) = Some cs
            \<and> snd (status f t0 t1 jid mem_jobs) = mem_jobs)
       \<and> (10 \<le> elapsed_of doc t0 t1 \<and> 10 \<le> elapsed_of doc t2 t3 \<longrightarrow>
            resp_clips (fst (status f t2 t3 jid (snd (status f t0 t1 jid mem_jobs))))
              = resp_clips (fst (status f t0 t1 jid mem_jobs))
            \<and> snd (status f t2 t3 jid (snd (status f t0 t1 jid mem_jobs))) = mem_jobs)"
proof (intro conjI impI)
  show "map_option job_clips (snd (status f t0 t1 jid mem_jobs) jid) = Some (Some cs)"
    using assms by (rule status_clips_unchanged)
next
  assume late: "10 \<le> elapsed_of doc t0 t1"
  have st: "status f t0 t1 jid mem_jobs = (Inr (completed_body doc), mem_jobs)"
    using assms late by (rule status_clips_returned)
  show "resp_clips (fst (status f t0 t1 jid mem_jobs)) = Some cs"
    by (simp add: st resp_clips_completed_body assms(2))
  show "snd (status f t0 t1 jid mem_jobs) = mem_jobs" by (simp add: st)
next
  assume both: "10 \<le> elapsed_of doc t0 t1 \<and> 10 \<le> elapsed_of doc t2 t3"
  have st1: "status f t0 t1 jid mem_jobs = (Inr (completed_body doc), mem_jobs)"
    using assms both by (intro status_clips_returned) simp_all
  have st2: "status f t2 t3 jid mem_jobs = (Inr (completed_body doc), mem_jobs)"
    using assms both by (intro status_clips_returned) simp_all
  show "resp_clips (fst (status f t2 t3 jid (snd (status f t0 t1 jid mem_jobs))))
          = resp_clips (fst (status f t0 t1 jid mem_jobs))"
    by (simp add: st1 st2)
  show "snd (status f t2 t3 jid (snd (status f t0 t1 jid mem_jobs))) = mem_jobs"
    by (simp add: st1 st2)
qed

theorem status_completed_idempotent_witness:
  "example_completed ''j1''
     = Some (completed_updates (example_clips (Some 45) (Some ''9:16'')) (example_doc ''45''))
   \<and> example_clips (Some 45) (Some ''9:16'') \<noteq> []
   \<and> resp_clips (fst (status float_of_digits 15 15 ''j1'' example_completed))
       = Some (example_clips (Some 45) (Some ''9:16''))
   \<and> resp_clips (fst (status float_of_digits 20 20 ''j1''
                        (snd (status float_of_digits 15 15 ''j1'' example_completed))))
       = Some (example_clips (Some 45) (Some ''9:16''))
   \<and> snd (status float_of_digits 20 20 ''j1''
             (snd (status float_of_digits 15 15 ''j1'' example_completed))) = example_completed
   \<and> map_option job_clips (snd (status float_of_digits 4 4 ''j1'' example_completed) ''j1'')
       = Some (Some (example_clips (Some 45) (Some ''9:16'')))"
proof -
  let ?doc = "completed_updates (example_clips (Some 45) (Some ''9:16'')) (example_doc ''45'')"
  have h1: "example_completed ''j1'' = Some ?doc" by (simp add: example_completed_eq)
  have h2: "job_clips ?doc = Some (example_clips (Some 45) (Some ''9:16''))"
    by (simp add: completed_updates_def)
  have h3: "example_clips (Some 45) (Some ''9:16'') \<noteq> []" by (simp add: example_clips_def)
  have e1: "elapsed_of ?doc 15 15 = 15"
    by (simp add: elapsed_of_def completed_updates_def example_doc_def)
  have e2: "elapsed_of ?doc 20 20 = 20"
    by (simp add: elapsed_of_def completed_updates_def example_doc_def)
  show ?thesis
    using status_completed_idempotent [where f = float_of_digits and mem_jobs = example_completed
        and jid = "''j1''" and doc = ?doc and cs = "example_clips (Some 45) (Some ''9:16'')"
        and ?t0.0 = 15 and ?t1.0 = 15 and ?t2.0 = 20 and ?t3.0 = 20, OF h1 h2 h3]
      status_completed_idempotent [where f = float_of_digits and mem_jobs = example_completed
        and jid = "''j1''" and doc = ?doc and cs = "example_clips (Some 45) (Some ''9:16'')"
        and ?t0.0 = 4 and ?t1.0 = 4 and ?t2.0 = 20 and ?t3.0 = 20, OF h1 h2 h3]
      status_completed_idempotent [where f = float_of_digits and mem_jobs = example_completed
        and jid = "''j1''" and doc = ?doc and cs = "example_clips (Some 45) (Some ''9:16'')"
        and ?t0.0 = 20 and ?t1.0 = 20 and ?t2.0 = 20 and ?t3.0 = 20, OF h1 h2 h3]
      h1 h3 e1 e2
    by simp
qed

section \<open>The keys of a poll's response\<close>

lemma completed_body_keys:
  "resp_status (Inr (completed_body doc)) = Some (job_status doc)"
  "resp_progress (Inr (completed_body doc)) = Some (job_progress doc)"
  "resp_has_key ''message'' (Inr (completed_body doc))"
  "resp_has_key ''clips'' (Inr (completed_body doc))"
  by (simp_all add: completed_body_def resp_status_def resp_progress_def resp_has_key_def)

text \<open>
  The keys of a returned body, in general: before the deadline exactly \<^verbatim>\<open>status\<close>,
  \<^verbatim>\<open>progress\<close> and \<^verbatim>\<open>message\<close>; at or after it those three and \<^verbatim>\<open>clips\<close>, whose
  value is then a non-empty list.
\<close>

lemma status_body_keys:
  assumes "mem_jobs jid = Some doc" and "job_created_ts doc = Some c"
    and "fst (status f t0 t1 jid mem_jobs) = Inr body"
  shows "(t1 - c < 10 \<longrightarrow> map fst body = [''status'', ''progress'', ''message''])
       \<and> (10 \<le> t1 - c \<longrightarrow>
            map fst body = [''status'', ''progress'', ''message'', ''clips'']
            \<and> (\<exists>cs. resp_clips (Inr body) = Some cs \<and> cs \<noteq> []))"
proof (cases "t1 - c < 10")
  case True
  have el: "elapsed_of doc t0 t1 = max 0 (t1 - c)" using assms(2) by (rule elapsed_of_created)
  have lt: "elapsed_of doc t0 t1 < 10" using True by (simp add: el)
  have "body = [(''status'', VStr ''processing''),
                (''progress'', VInt (spec_progress (elapsed_of doc t0 t1))),
                (''message'', VStr (''Working on your highlights'' @ ellipsis))]"
    using status_processing [where f = f and mem_jobs = mem_jobs and jid = jid, OF assms(1) lt]
      assms(3) by simp
  then show ?thesis using True by simp
next
  case False
  have el: "elapsed_of doc t0 t1 = max 0 (t1 - c)" using assms(2) by (rule elapsed_of_created)
  have late: "10 \<le> elapsed_of doc t0 t1" using False by (simp add: el)
  have keys: "map fst (completed_body d) = [''status'', ''progress'', ''message'', ''clips'']" for d
    by (simp add: completed_body_def)
  show ?thesis
  proof (cases "has_clips doc")
    case True
    have b: "body = completed_body doc"
      using status_completed_stored [where f = f and mem_jobs = mem_jobs and jid = jid,
          OF assms(1) late True] assms(3) by simp
    from True obtain cs where "job_clips doc = Some cs" "cs \<noteq> []"
      by (auto simp add: has_clips_def split: option.splits)
    then show ?thesis
      using False by (simp add: b keys resp_clips_completed_body)
  next
    case nc: False
    show ?thesis
    proof (cases "first_duration f doc")
      case (Inl e)
      have "fst (status f t0 t1 jid mem_jobs) = Inl e"
        using status_completed_invalid [where f = f and mem_jobs = mem_jobs and jid = jid,
            OF assms(1) late nc Inl] by simp
      with assms(3) show ?thesis by simp
    next
      case (Inr d)
      have b: "body = completed_body
                 (completed_updates (example_clips d (job_aspect_ratio doc)) doc)"
        using status_completed_generated [where f = f and mem_jobs = mem_jobs and jid = jid,
            OF assms(1) late nc Inr] assms(3) by simp
      show ?thesis
        using False
        by (simp add: b keys resp_clips_completed_body completed_updates_def example_clips_def)
    qed
  qed
qed

text \<open>
  C4. Not every response to a poll of an existing job has the four keys. The example job,
  created at clock reading 100 and holding no clips, is polled at 103: the body returned is
  the three-key dictionary of the processing branch, without the key \<^verbatim>\<open>clips\<close>. The
  completed branch returns that key, with \<^verbatim>\<open>doc.get('clips', [])\<close>; the processing
  branch leaves it out.
\<close>

theorem status_processing_omits_clips:
  "late_store ''auto'' ''j1'' = Some (late_doc ''auto'')
   \<and> job_clips (late_doc ''auto'') = None
   \<and> fst (status float_of_digits 103 103 ''j1'' (late_store ''auto''))
       = Inr [(''status'', VStr ''processing''),
              (''progress'', VInt 37),
              (''message'', VStr (''Working on your highlights'' @ ellipsis))]
   \<and> \<not> resp_has_key ''clips'' (fst (status float_of_digits 103 103 ''j1'' (late_store ''auto'')))"
proof -
  have h1: "late_store ''auto'' ''j1'' = Some (late_doc ''auto'')"
    by (simp add: late_store_eq)
  have nc: "job_clips (late_doc ''auto'') = None" by (simp add: late_doc_def example_doc_def)
  have e: "elapsed_of (late_doc ''auto'') 103 103 = 3"
    by (simp add: elapsed_of_def late_doc_def)
  have h2: "elapsed_of (late_doc ''auto'') 103 103 < 10" by (simp add: e)
  have p: "spec_progress 3 = 37" by (simp add: spec_progress_def)
  have st: "fst (status float_of_digits 103 103 ''j1'' (late_store ''auto''))
       = Inr [(''status'', VStr ''processing''),
              (''progress'', VInt 37),
              (''message'', VStr (''Working on your highlights'' @ ellipsis))]"
    using status_processing [where f = float_of_digits and mem_jobs = "late_store ''auto''"
        and jid = "''j1''" and doc = "late_doc ''auto''" and ?t0.0 = 103 and ?t1.0 = 103, OF h1 h2]
    by (simp add: e p)
  have k: "\<not> resp_has_key ''clips'' (fst (status float_of_digits 103 103 ''j1'' (late_store ''auto'')))"
    unfolding st by (simp add: resp_has_key_def)
  from h1 nc st k show ?thesis by blast
qed

section \<open>Progress over a sequence of polls\<close>

lemma polls_Cons_fst:
  "fst (polls f (t # ts) jid mem_jobs)
     = fst (status f (fst t) (snd t) jid mem_jobs)
         # fst (polls f ts jid (snd (status f (fst t) (snd t) jid mem_jobs)))"
  by (simp add: split_beta Let_def)

lemma polls_processing:
  assumes "job_created_ts doc = Some c" and "mem_jobs jid = Some doc"
    and "\<forall>t\<in>set ts. snd t - c < 10"
  shows "map resp_progress (fst (polls f ts jid mem_jobs))
           = map (\<lambda>t. Some (spec_progress (max 0 (snd t - c)))) ts"
  using assms
proof (induction ts arbitrary: mem_jobs doc)
  case Nil
  show ?case by simp
next
  case (Cons t ts)
  have el: "elapsed_of doc (fst t) (snd t) = max 0 (snd t - c)"
    using Cons.prems(1) by (simp add: elapsed_of_def)
  have lt: "elapsed_of doc (fst t) (snd t) < 10" using Cons.prems(3) by (simp add: el)
  let ?doc' = "processing_updates (spec_progress (elapsed_of doc (fst t) (snd t))) doc"
  let ?mem' = "mem_jobs(jid \<mapsto> ?doc')"
  have st: "status f (fst t) (snd t) jid mem_jobs =
          (Inr [(''status'', VStr ''processing''),
                (''progress'', VInt (spec_progress (elapsed_of doc (fst t) (snd t)))),
                (''message'', VStr (''Working on your highlights'' @ ellipsis))], ?mem')"
    using status_processing [where f = f and mem_jobs = mem_jobs and jid = jid,
        OF Cons.prems(2) lt] .
  have c': "job_created_ts ?doc' = Some c" using Cons.prems(1) by (simp add: processing_updates_def)
  have m': "?mem' jid = Some ?doc'" by simp
  have rest: "\<forall>t\<in>set ts. snd t - c < 10" using Cons.prems(3) by simp
  have ih: "map resp_progress (fst (polls f ts jid ?mem'))
           = map (\<lambda>t. Some (spec_progress (max 0 (snd t - c)))) ts"
    using Cons.IH [where doc = ?doc' and mem_jobs = ?mem', OF c' m' rest] .
  have hd: "resp_progress (fst (status f (fst t) (snd t) jid mem_jobs))
              = Some (spec_progress (max 0 (snd t - c)))"
    by (simp add: st el resp_progress_def)
  show ?case
    unfolding polls_Cons_fst using ih hd by (simp add: st)
qed

lemma progress_sorted:
  assumes "sorted (map snd ts)"
  shows "sorted (map (\<lambda>t. spec_progress (max 0 (snd t - c))) (ts :: (real \<times> real) list))"
  using assms
proof (induction ts)
  case Nil
  show ?case by simp
next
  case (Cons t ts)
  have "spec_progress (max 0 (snd t - c)) \<le> spec_progress (max 0 (snd u - c))" if "u \<in> set ts" for u
  proof -
    have "snd t \<le> snd u" using Cons.prems that by auto
    then show ?thesis by (intro spec_progress_mono) simp
  qed
  then show ?case using Cons by auto
qed

lemma progress_within_iff:
  "progress_within lo hi rs \<longleftrightarrow> (\<forall>r\<in>set rs. \<exists>p. resp_progress r = Some p \<and> lo \<le> p \<and> p < hi)"
  by (auto simp add: progress_within_def list_all_iff split: option.splits)

lemma spec_progress_values:
  "spec_progress 1 = 19" "spec_progress 3 = 37" "spec_progress (99/10) = 99"
  by (simp_all add: spec_progress_def)

text \<open>
  C3. The progress of a poll before the deadline does not stay below 95: a poll of the
  example job 9.9 seconds after its creation reports the progress 99.
\<close>

theorem polls_progress_counterexample:
  "map resp_progress (fst (polls float_of_digits [(99/10, 99/10)] ''j1'' (example_store ''auto'')))
     = [Some 99]
   \<and> \<not> progress_within 10 95
         (fst (polls float_of_digits [(99/10, 99/10)] ''j1'' (example_store ''auto'')))"
proof -
  have h1: "example_store ''auto'' ''j1'' = Some (example_doc ''auto'')"
    by (simp add: example_store_eq)
  have e: "elapsed_of (example_doc ''auto'') (99/10) (99/10) = 99/10"
    by (simp add: elapsed_of_def example_doc_def)
  have h2: "elapsed_of (example_doc ''auto'') (99/10) (99/10) < 10" by (simp add: e)
  have st: "status float_of_digits (99/10) (99/10) ''j1'' (example_store ''auto'')
         = (Inr [(''status'', VStr ''processing''), (''progress'', VInt 99),
                (''message'', VStr (''Working on your highlights'' @ ellipsis))],
            (example_store ''auto'')(''j1'' \<mapsto> processing_updates 99 (example_doc ''auto'')))"
    using status_processing [where f = float_of_digits and mem_jobs = "example_store ''auto''"
        and jid = "''j1''" and doc = "example_doc ''auto''" and ?t0.0 = "99/10" and ?t1.0 = "99/10",
        OF h1 h2]
    by (simp add: e spec_progress_values)
  have "fst (polls float_of_digits [(99/10, 99/10)] ''j1'' (example_store ''auto''))
          = [Inr [(''status'', VStr ''processing''), (''progress'', VInt 99),
                (''message'', VStr (''Working on your highlights'' @ ellipsis))]]"
    unfolding polls_Cons_fst by (simp add: st)
  then show ?thesis by (simp add: progress_within_def resp_progress_def)
qed

text \<open>
  C3, as the code has it. For polls of one job at non-decreasing clock readings, each
  less than 10 seconds after the job's creation, the reported progress values are
  those of the formula, they are non-decreasing, and each is at least 10 and less
  than 100.
\<close>

theorem polls_progress_monotone:
  assumes "mem_jobs jid = Some doc" and "job_created_ts doc = Some c"
    and "sorted (map snd ts)" and "\<forall>t\<in>set ts. snd t - c < 10"
  shows "map resp_progress (fst (polls f ts jid mem_jobs))
           = map (\<lambda>t. Some (spec_progress (max 0 (snd t - c)))) ts
       \<and> sorted (map (\<lambda>t. spec_progress (max 0 (snd t - c))) ts)
       \<and> progress_within 10 100 (fst (polls f ts jid mem_jobs))"
proof (intro conjI)
  show eq: "map resp_progress (fst (polls f ts jid mem_jobs))
           = map (\<lambda>t. Some (spec_progress (max 0 (snd t - c)))) ts"
    using assms(2,1,4) by (rule polls_processing)
  show "sorted (map (\<lambda>t. spec_progress (max 0 (snd t - c))) ts)"
    using assms(3) by (rule progress_sorted)
  show "progress_within 10 100 (fst (polls f ts jid mem_jobs))"
    unfolding progress_within_iff
  proof
    fix r assume "r \<in> set (fst (polls f ts jid mem_jobs))"
    then have "resp_progress r \<in> set (map resp_progress (fst (polls f ts jid mem_jobs)))" by simp
    then obtain t where t: "t \<in> set ts" "resp_progress r = Some (spec_progress (max 0 (snd t - c)))"
      unfolding eq by auto
    have "max 0 (snd t - c) < 10" using assms(4) t(1) by auto
    then have "10 \<le> spec_progress (max 0 (snd t - c)) \<and> spec_progress (max 0 (snd t - c)) < 100"
      by (intro spec_progress_range) simp_all
    with t(2) show "\<exists>p. resp_progress r = Some p \<and> 10 \<le> p \<and> p < 100" by simp
  qed
qed

theorem polls_progress_monotone_witness:
  "example_store ''auto'' ''j1'' = Some (example_doc ''auto'')
   \<and> job_created_ts (example_doc ''auto'') = Some 0
   \<and> sorted (map snd ([(1, 1), (3, 3), (3, 3), (99/10, 99/10)] :: (real \<times> real) list))
   \<and> map resp_progress
        (fst (polls float_of_digits [(1, 1), (3, 3), (3, 3), (99/10, 99/10)] ''j1'' (example_store ''auto'')))
       = [Some 19, Some 37, Some 37, Some 99]
   \<and> progress_within 10 100
        (fst (polls float_of_digits [(1, 1), (3, 3), (3, 3), (99/10, 99/10)] ''j1'' (example_store ''auto'')))"
proof -
  have h1: "example_store ''auto'' ''j1'' = Some (example_doc ''auto'')"
    by (simp add: example_store_eq)
  have h2: "job_created_ts (example_doc ''auto'') = Some 0" by (simp add: example_doc_def)
  have h3: "sorted (map snd ([(1, 1), (3, 3), (3, 3), (99/10, 99/10)] :: (real \<times> real) list))" by simp
  have h4: "\<forall>t\<in>set ([(1, 1), (3, 3), (3, 3), (99/10, 99/10)] :: (real \<times> real) list). snd t - 0 < 10" by simp
  show ?thesis
    using polls_progress_monotone [where f = float_of_digits and mem_jobs = "example_store ''auto''"
        and jid = "''j1''" and doc = "example_doc ''auto''" and c = 0
        and ts = "[(1, 1), (3, 3), (3, 3), (99/10, 99/10)]", OF h1 h2 h3 h4] h1 h2 h3
    by (simp add: spec_progress_values)
qed

section \<open>Polling after the deadline\<close>

text \<open>
  The first poll 10 seconds or more after creation completes a job whose clip length
  pydantic accepts for the clip's duration.
\<close>

lemma status_completed_response:
  assumes "mem_jobs jid = Some doc" and "10 \<le> elapsed_of doc t0 t1" and "\<not> has_clips doc"
    and "first_duration f doc = Inr d"
  shows "resp_status (fst (status f t0 t1 jid mem_jobs)) = Some ''completed''
       \<and> resp_progress (fst (status f t0 t1 jid mem_jobs)) = Some 100
       \<and> map_option length (resp_clips (fst (status f t0 t1 jid mem_jobs))) = Some 2"
  using status_completed_generated [where f = f and mem_jobs = mem_jobs and jid = jid, OF assms]
  by (simp add: completed_body_keys resp_clips_completed_body completed_updates_def
      example_clips_def)

text \<open>
  C2. Not every poll 10 seconds or more after creation completes the job. The example job
  created with the clip length \<^verbatim>\<open>short\<close> exists, and its poll at 10 seconds raises pydantic's
  \<^verbatim>\<open>ValidationError\<close> when the first example clip is built: the request ends in a server
  error, with no status, progress or clips, and the store stays as it was, so every later
  poll fails in the same way.
\<close>

theorem status_unconvertible_clip_length:
  "example_store ''short'' ''j1'' = Some (example_doc ''short'')
   \<and> elapsed_of (example_doc ''short'') 10 10 = 10
   \<and> status float_of_digits 10 10 ''j1'' (example_store ''short'')
       = (Inl ValidationError, example_store ''short'')"
proof -
  have h1: "example_store ''short'' ''j1'' = Some (example_doc ''short'')"
    by (simp add: example_store_eq)
  have e: "elapsed_of (example_doc ''short'') 10 10 = 10"
    by (simp add: elapsed_of_def example_doc_def)
  have h2: "10 \<le> elapsed_of (example_doc ''short'') 10 10" by (simp add: e)
  have h3: "\<not> has_clips (example_doc ''short'')" by (simp add: has_clips_def example_doc_def)
  have h4: "first_duration float_of_digits (example_doc ''short'') = Inl ValidationError"
    by (simp add: first_duration_def example_doc_def float_of_digits_short)
  show ?thesis
    using status_completed_invalid [where f = float_of_digits
        and mem_jobs = "example_store ''short''" and jid = "''j1''"
        and doc = "example_doc ''short''" and ?t0.0 = 10 and ?t1.0 = 10, OF h1 h2 h3 h4] h1 e
    by simp
qed

end
